theory Spec2Isabelle
  imports Main
begin

section \<open>Python values used by preprocess.py\<close>

text \<open>
  A Python \<open>str\<close> is a sequence of Unicode code points. Code points are natural
  numbers here, so that the non-ASCII input which \<open>clean_sentences\<close> folds away can be
  written down. \<open>str\<close> turns an ASCII literal into such a sequence.
\<close>

type_synonym pystr = "nat list"

definition str :: "string \<Rightarrow> pystr" where
  "str s = map of_char s"

text \<open>The exceptions the program can raise in the modelled part.\<close>

datatype py_error = FileNotFoundError | TypeError

text \<open>
  The threshold reaches \<open>reduce_vocab\<close> either as the integer default of the
  command line parser or as the string the user typed: the parser is given no
  \<open>type=\<close> for the option.
\<close>

datatype pyval = PyInt int | PyStr pystr

subsection \<open>Methods of \<open>str\<close>\<close>

text \<open>
  \<open>str.isspace\<close> on one code point: the characters that \<open>str.split()\<close> and
  \<open>str.strip()\<close> treat as whitespace (U+0009..000D, U+001C..0020, U+0085, U+00A0, U+1680,
  U+2000..200A, U+2028, U+2029, U+202F, U+205F, U+3000).
\<close>

definition isspace :: "nat \<Rightarrow> bool" where
  "isspace c \<longleftrightarrow>
     (9 \<le> c \<and> c \<le> 13) \<or> (28 \<le> c \<and> c \<le> 32) \<or> c = 133 \<or> c = 160 \<or> c = 5760 \<or>
     (8192 \<le> c \<and> c \<le> 8202) \<or> c = 8232 \<or> c = 8233 \<or> c = 8239 \<or> c = 8287 \<or> c = 12288"

text \<open>
  \<open>s.split()\<close> without a separator: the maximal runs of non-whitespace, in order;
  no empty token is ever produced. \<open>split_acc cur s\<close> scans \<open>s\<close> with the token read so
  far in \<open>cur\<close>.
\<close>

fun split_acc :: "pystr \<Rightarrow> pystr \<Rightarrow> pystr list" where
  "split_acc cur [] = (if cur = [] then [] else [cur])"
| "split_acc cur (c # cs) =
     (if isspace c then (if cur = [] then split_acc [] cs else cur # split_acc [] cs)
      else split_acc (cur @ [c]) cs)"

definition str_split :: "pystr \<Rightarrow> pystr list" where
  "str_split s = split_acc [] s"

text \<open>
  \<open>s.split(sep)\<close> for a separator of one code point (the program uses \<open>"\n"\<close>): the
  pieces between separators, empty pieces included, so the result is never empty.
\<close>

fun split_sep_acc :: "nat \<Rightarrow> pystr \<Rightarrow> pystr \<Rightarrow> pystr list" where
  "split_sep_acc sep cur [] = [cur]"
| "split_sep_acc sep cur (c # cs) =
     (if c = sep then cur # split_sep_acc sep [] cs else split_sep_acc sep (cur @ [c]) cs)"

definition str_split_sep :: "nat \<Rightarrow> pystr \<Rightarrow> pystr list" where
  "str_split_sep sep s = split_sep_acc sep [] s"

text \<open>\<open>s.strip()\<close>: whitespace removed at both ends.\<close>

definition str_strip :: "pystr \<Rightarrow> pystr" where
  "str_strip s = rev (dropWhile isspace (rev (dropWhile isspace s)))"

text \<open>\<open>sep.join(ws)\<close>.\<close>

fun str_join :: "pystr \<Rightarrow> pystr list \<Rightarrow> pystr" where
  "str_join sep [] = []"
| "str_join sep [w] = w"
| "str_join sep (w # v # ws) = w @ sep @ str_join sep (v # ws)"

text \<open>
  \<open>str.lower\<close> and \<open>str.isalpha\<close>. Both are modelled on ASCII, where they are exact:
  \<open>lower\<close> maps A..Z to a..z and \<open>isalpha\<close> holds of a non-empty string of letters.
  \<open>clean_sentences\<close> applies them only after \<open>encode("ascii", "ignore")\<close>, that is
  to ASCII strings (lemma \<open>ascii_ignore_ascii\<close> below); on other code points the
  two definitions say nothing about Python.
\<close>

definition str_lower :: "pystr \<Rightarrow> pystr" where
  "str_lower w = map (\<lambda>c. if 65 \<le> c \<and> c \<le> 90 then c + 32 else c) w"

definition is_ascii_letter :: "nat \<Rightarrow> bool" where
  "is_ascii_letter c \<longleftrightarrow> (65 \<le> c \<and> c \<le> 90) \<or> (97 \<le> c \<and> c \<le> 122)"

definition str_isalpha :: "pystr \<Rightarrow> bool" where
  "str_isalpha w \<longleftrightarrow> w \<noteq> [] \<and> list_all is_ascii_letter w"

subsection \<open>Constants of the \<open>string\<close> module\<close>

text \<open>
  \<open>string.punctuation\<close> is the 32 characters
  \<^verbatim>\<open>!"#$%&'()*+,-./:;<=>?@[\]^_`{|}~\<close>, that is the code points 33..47, 58..64,
  91..96 and 123..126; \<open>string.printable\<close> is digits, letters, punctuation and the
  whitespace \<^verbatim>\<open>' \t\n\r\x0b\x0c'\<close>.
\<close>

definition punctuation :: pystr where
  "punctuation = [33..<48] @ [58..<65] @ [91..<97] @ [123..<127]"

definition printable :: pystr where
  "printable = [48..<58] @ [97..<123] @ [65..<91] @ punctuation @ [32, 9, 10, 13, 11, 12]"

section \<open>The functions of preprocess.py\<close>

subsection \<open>Files\<close>

text \<open>
  The part of the world the program touches: the text files it can read (\<open>files\<close>
  gives the text that \<open>file.read()\<close> returns; a missing name is a file that cannot be
  opened) and the lists it has pickled (\<open>pickles\<close>, by file name). Writing is taken
  to succeed.
\<close>

record world =
  files :: "pystr \<rightharpoonup> pystr"
  pickles :: "pystr \<rightharpoonup> pystr list"

definition get_sentences_from_document :: "world \<Rightarrow> pystr \<Rightarrow> py_error + pystr list" where
  "get_sentences_from_document w filename =
     (case files w filename of
        None \<Rightarrow> Inl FileNotFoundError
      | Some raw_text \<Rightarrow> Inr (str_split_sep 10 (str_strip raw_text)))"

subsection \<open>Vocabulary\<close>

text \<open>
  A \<open>Counter\<close> is a dictionary in insertion order: a list of (word, count) pairs with
  distinct words. \<open>counter_add\<close> is \<open>voc[word] += 1\<close>, and \<open>counter_update\<close> is
  \<open>voc.update(words)\<close>.
\<close>

type_synonym counter = "(pystr \<times> int) list"

fun counter_add :: "pystr \<Rightarrow> counter \<Rightarrow> counter" where
  "counter_add word [] = [(word, 1)]"
| "counter_add word ((k, cnt) # voc) =
     (if k = word then (k, cnt + 1) # voc else (k, cnt) # counter_add word voc)"

definition counter_update :: "counter \<Rightarrow> pystr list \<Rightarrow> counter" where
  "counter_update voc words = fold counter_add words voc"

definition get_vocabulary_count :: "pystr list \<Rightarrow> counter" where
  "get_vocabulary_count sentences =
     fold (\<lambda>sentence voc. counter_update voc (str_split sentence)) sentences []"

text \<open>
  \<open>cnt >= threshold\<close>: between two integers it is the comparison; between an integer
  and a string it raises \<open>TypeError\<close>.
\<close>

fun ge_threshold :: "int \<Rightarrow> pyval \<Rightarrow> py_error + bool" where
  "ge_threshold cnt (PyInt t) = Inr (cnt \<ge> t)"
| "ge_threshold cnt (PyStr s) = Inl TypeError"

text \<open>The list comprehension of \<open>reduce_vocab\<close>, item by item; the first error ends it.\<close>

fun vocab_items_ge :: "counter \<Rightarrow> pyval \<Rightarrow> py_error + pystr list" where
  "vocab_items_ge [] threshold = Inr []"
| "vocab_items_ge ((word, cnt) # vocab) threshold =
     (case ge_threshold cnt threshold of
        Inl e \<Rightarrow> Inl e
      | Inr keep \<Rightarrow>
          (case vocab_items_ge vocab threshold of
             Inl e \<Rightarrow> Inl e
           | Inr ws \<Rightarrow> Inr (if keep then word # ws else ws)))"

definition reduce_vocab :: "counter \<Rightarrow> pyval \<Rightarrow> py_error + pystr set" where
  "reduce_vocab vocab threshold =
     (case vocab_items_ge vocab threshold of Inl e \<Rightarrow> Inl e | Inr ws \<Rightarrow> Inr (set ws))"

subsection \<open>Rewriting with the reduced vocabulary\<close>

text \<open>The body of the outer loop of \<open>update_dataset\<close>, for one line.\<close>

definition update_line :: "pystr set \<Rightarrow> pystr \<Rightarrow> pystr" where
  "update_line vocab line =
     (let new_words = map (\<lambda>t. if t \<in> vocab then t else str ''uup'') (str_split line);
          new_words = filter (\<lambda>word. word \<noteq> str ''s'') new_words
      in str_join (str '' '') new_words)"

definition update_dataset :: "pystr list \<Rightarrow> pystr set \<Rightarrow> pystr list" where
  "update_dataset sentences vocab = map (update_line vocab) sentences"

subsection \<open>Cleaning\<close>

text \<open>
  \<open>.encode("ascii", "ignore").decode("UTF-8")\<close>: the code points below 128 survive,
  all others are dropped.
\<close>

definition ascii_ignore :: "pystr \<Rightarrow> pystr" where
  "ascii_ignore s = filter (\<lambda>c. c < 128) s"

text \<open>\<open>word.translate(table)\<close>, where \<open>table\<close> deletes the punctuation characters.\<close>

definition translate_table :: "pystr \<Rightarrow> pystr" where
  "translate_table word = filter (\<lambda>c. c \<notin> set punctuation) word"

text \<open>\<open>re_pat.sub("", word)\<close>: every character outside \<open>string.printable\<close> is deleted.\<close>

definition re_pat_sub :: "pystr \<Rightarrow> pystr" where
  "re_pat_sub word = filter (\<lambda>c. c \<in> set printable) word"

text \<open>
  The body of the loop of \<open>clean_sentences\<close>, for one line. \<open>normalize_NFD\<close> stands
  for \<open>unicodedata.normalize("NFD", _)\<close>, a table of the Unicode standard that the
  functions below take as a parameter.
\<close>

definition clean_line :: "(pystr \<Rightarrow> pystr) \<Rightarrow> pystr \<Rightarrow> pystr" where
  "clean_line normalize_NFD line =
     (let line = ascii_ignore (normalize_NFD line);
          words = str_split line;
          lowercase_words = map str_lower words;
          punctuationless_words = map translate_table lowercase_words;
          printable_words = map re_pat_sub punctuationless_words;
          non_numeric_words = filter str_isalpha printable_words
      in str_join (str '' '') non_numeric_words)"

definition clean_sentences :: "(pystr \<Rightarrow> pystr) \<Rightarrow> pystr list \<Rightarrow> pystr list" where
  "clean_sentences normalize_NFD lines = map (clean_line normalize_NFD) lines"

subsection \<open>The pipeline and the command line\<close>

text \<open>
  \<open>preprocess_file\<close> returns the world it leaves behind and the exception that ended
  it, if any: what was pickled before an exception stays written.
\<close>

definition preprocess_file ::
  "(pystr \<Rightarrow> pystr) \<Rightarrow> world \<Rightarrow> pystr \<Rightarrow> pystr \<Rightarrow> pyval \<Rightarrow> world \<times> py_error option" where
  "preprocess_file normalize_NFD w input_filename output_filename vocab_reduction_threshold =
     (case get_sentences_from_document w input_filename of
        Inl e \<Rightarrow> (w, Some e)
      | Inr raw_sentences \<Rightarrow>
          (let cleaned_sentences = clean_sentences normalize_NFD raw_sentences;
               w1 = w\<lparr>pickles := (pickles w)(output_filename @ str ''.pkl'' \<mapsto> cleaned_sentences)\<rparr>;
               vocab = get_vocabulary_count cleaned_sentences
           in case reduce_vocab vocab vocab_reduction_threshold of
                Inl e \<Rightarrow> (w1, Some e)
              | Inr reduced_vocab \<Rightarrow>
                  (let new_data = update_dataset cleaned_sentences reduced_vocab
                   in (w1\<lparr>pickles := (pickles w1)(output_filename @ str ''.reduced.pkl'' \<mapsto> new_data)\<rparr>,
                       None))))"

text \<open>
  The parsed command line: each option is absent or carries the string given. An absent
  option takes its default; the threshold's default is the integer 4, a given threshold
  stays the string it was typed as.
\<close>

record args =
  arg_input :: "pystr option"
  arg_output :: "pystr option"
  arg_vocab_reduction_threshold :: "pystr option"

definition main :: "(pystr \<Rightarrow> pystr) \<Rightarrow> world \<Rightarrow> args \<Rightarrow> world \<times> py_error option" where
  "main normalize_NFD w a =
     preprocess_file normalize_NFD w
       (case arg_input a of None \<Rightarrow> str ''Input.txt'' | Some s \<Rightarrow> s)
       (case arg_output a of None \<Rightarrow> str ''Output.txt'' | Some s \<Rightarrow> s)
       (case arg_vocab_reduction_threshold a of None \<Rightarrow> PyInt 4 | Some s \<Rightarrow> PyStr s)"

section \<open>Vocabulary of the properties\<close>

text \<open>
  A token is what \<open>str.split()\<close> produces: non-empty and free of whitespace. The
  tokens of a cleaned line are words of lowercase ASCII letters.
\<close>

definition no_space :: "pystr \<Rightarrow> bool" where
  "no_space w = list_all (\<lambda>c. \<not> isspace c) w"

definition is_token :: "pystr \<Rightarrow> bool" where
  "is_token t \<longleftrightarrow> t \<noteq> [] \<and> no_space t"

definition is_lower_word :: "pystr \<Rightarrow> bool" where
  "is_lower_word w \<longleftrightarrow> w \<noteq> [] \<and> list_all (\<lambda>c. 97 \<le> c \<and> c \<le> 122) w"

text \<open>The words \<open>clean_line\<close> joins (its \<open>non_numeric_words\<close>).\<close>

definition clean_words :: "(pystr \<Rightarrow> pystr) \<Rightarrow> pystr \<Rightarrow> pystr list" where
  "clean_words normalize_NFD line =
     filter str_isalpha (map re_pat_sub (map translate_table (map str_lower
       (str_split (ascii_ignore (normalize_NFD line))))))"

text \<open>
  A fragment of the NFD table for the examples: U+00E9 (e with acute) decomposes into
  \<open>e\<close> and the combining acute accent U+0301; every other code point is left alone.
\<close>

definition nfd_sample :: "pystr \<Rightarrow> pystr" where
  "nfd_sample s = concat (map (\<lambda>c. if c = 233 then [101, 769] else [c]) s)"

text \<open>The words \<open>update_line\<close> joins (its final \<open>new_words\<close>).\<close>

definition new_words :: "pystr set \<Rightarrow> pystr \<Rightarrow> pystr list" where
  "new_words vocab line =
     filter (\<lambda>word. word \<noteq> str ''s'')
       (map (\<lambda>t. if t \<in> vocab then t else str ''uup'') (str_split line))"

text \<open>
  The rewriting of one token as claim C8 words it: a token outside the vocabulary becomes
  the placeholder, which stays; a token of the vocabulary that equals \<open>"s"\<close> is deleted;
  any other token of the vocabulary is kept.
\<close>

definition rewrite_token :: "pystr set \<Rightarrow> pystr \<Rightarrow> pystr list" where
  "rewrite_token vocab t =
     (if t \<notin> vocab then [str ''uup''] else if t = str ''s'' then [] else [t])"

text \<open>The loop of \<open>get_vocabulary_count\<close>, started from any counter.\<close>

definition count_sentences :: "counter \<Rightarrow> pystr list \<Rightarrow> counter" where
  "count_sentences voc sentences =
     fold (\<lambda>sentence voc. counter_update voc (str_split sentence)) sentences voc"

section \<open>Splitting and joining\<close>

lemma no_space_simps:
  "no_space []" "no_space (c # w) \<longleftrightarrow> \<not> isspace c \<and> no_space w"
  "no_space (u @ v) \<longleftrightarrow> no_space u \<and> no_space v"
  by (simp_all add: no_space_def)

lemma split_acc_tokens:
  "no_space cur \<Longrightarrow> list_all is_token (split_acc cur s)"
  by (induction cur s rule: split_acc.induct) (simp_all add: no_space_simps is_token_def)

lemma split_acc_word:
  "no_space w \<Longrightarrow> split_acc cur (w @ rest) = split_acc (cur @ w) rest"
  by (induction w arbitrary: cur) (simp_all add: no_space_simps)

lemma isspace_32: "isspace 32"
  by (simp add: isspace_def)

lemma str_space: "str '' '' = [32]"
  by (simp add: str_def)

lemma split_acc_join:
  "list_all is_token ws \<Longrightarrow> split_acc [] (str_join [32] ws) = ws"
proof (induction "[32::nat]" ws rule: str_join.induct)
  case 1
  then show ?case by simp
next
  case (2 w)
  then have "no_space w" "w \<noteq> []" by (simp_all add: is_token_def)
  then show ?case using split_acc_word [of w "[]" "[]"] by simp
next
  case (3 w v ws)
  from 3(2) have w: "w \<noteq> []" "no_space w" by (simp_all add: is_token_def)
  from 3 have IH: "split_acc [] (str_join [32] (v # ws)) = v # ws" by simp
  have "split_acc [] (w @ 32 # str_join [32] (v # ws)) = split_acc ([] @ w) (32 # str_join [32] (v # ws))"
    using w(2) by (rule split_acc_word)
  also have "\<dots> = w # split_acc [] (str_join [32] (v # ws))"
    using w(1) by (simp add: isspace_32)
  finally show ?case using IH by simp
qed

text \<open>Joining tokens with single spaces and splitting again gives the tokens back.\<close>

lemma str_split_join:
  "list_all is_token ws \<Longrightarrow> str_split (str_join (str '' '') ws) = ws"
  by (simp add: str_split_def str_space split_acc_join)

lemma str_split_tokens: "list_all is_token (str_split s)"
  unfolding str_split_def by (rule split_acc_tokens) (simp add: no_space_simps)

section \<open>Cleaning\<close>

lemma in_punctuation:
  "c \<in> set punctuation \<longleftrightarrow>
     (33 \<le> c \<and> c < 48) \<or> (58 \<le> c \<and> c < 65) \<or> (91 \<le> c \<and> c < 97) \<or> (123 \<le> c \<and> c < 127)"
  unfolding punctuation_def by (simp only: set_append set_upt Un_iff atLeastLessThan_iff)

lemma in_printable:
  "c \<in> set printable \<longleftrightarrow> (9 \<le> c \<and> c \<le> 13) \<or> (32 \<le> c \<and> c \<le> 126)"
proof -
  have "c \<in> set printable \<longleftrightarrow>
      (48 \<le> c \<and> c < 58) \<or> (97 \<le> c \<and> c < 123) \<or> (65 \<le> c \<and> c < 91) \<or> c \<in> set punctuation \<or>
      c \<in> {32, 9, 10, 13, 11, 12}"
    unfolding printable_def
    by (simp only: set_append set_upt Un_iff atLeastLessThan_iff list.set)
  also have "\<dots> \<longleftrightarrow> (9 \<le> c \<and> c \<le> 13) \<or> (32 \<le> c \<and> c \<le> 126)"
    unfolding in_punctuation by (simp only: insert_iff empty_iff) presburger
  finally show ?thesis .
qed

text \<open>
  What \<open>lower\<close> and \<open>isalpha\<close> are applied to is ASCII, where their models are
  exact.
\<close>

lemma ascii_ignore_ascii: "list_all (\<lambda>c. c < 128) (ascii_ignore s)"
  by (simp add: ascii_ignore_def list_all_iff)

lemma clean_line_words:
  "clean_line normalize_NFD line = str_join (str '' '') (clean_words normalize_NFD line)"
  by (simp only: clean_line_def clean_words_def Let_def)

lemma lower_letter:
  "is_ascii_letter (if 65 \<le> c \<and> c \<le> 90 then c + 32 else c) \<Longrightarrow>
   97 \<le> (if 65 \<le> c \<and> c \<le> 90 then c + 32 else c) \<and> (if 65 \<le> c \<and> c \<le> 90 then c + 32 else c) \<le> 122"
  by (auto simp: is_ascii_letter_def)

lemma isalpha_lowered:
  assumes "str_isalpha (re_pat_sub (translate_table (str_lower t)))"
  shows "is_lower_word (re_pat_sub (translate_table (str_lower t)))"
proof -
  let ?w = "re_pat_sub (translate_table (str_lower t))"
  have sub: "set ?w \<subseteq> set (str_lower t)"
    by (auto simp: re_pat_sub_def translate_table_def)
  have "97 \<le> d \<and> d \<le> 122" if "d \<in> set ?w" for d
  proof -
    from that sub have "d \<in> set (str_lower t)" by blast
    then obtain c where d: "d = (if 65 \<le> c \<and> c \<le> 90 then c + 32 else c)"
      unfolding str_lower_def by (auto simp del: set_map simp add: in_set_conv_nth)
    from assms that have "is_ascii_letter d"
      by (simp add: str_isalpha_def list_all_iff)
    with d show ?thesis using lower_letter [of c] by simp
  qed
  then have "list_all (\<lambda>c. 97 \<le> c \<and> c \<le> 122) ?w"
    by (simp add: list_all_iff)
  with assms show ?thesis by (simp add: is_lower_word_def str_isalpha_def)
qed

lemma clean_words_lower: "list_all is_lower_word (clean_words normalize_NFD line)"
  by (auto simp: clean_words_def list_all_iff intro: isalpha_lowered)

lemma lower_word_token: "is_lower_word w \<Longrightarrow> is_token w"
  by (auto simp: is_lower_word_def is_token_def no_space_def list_all_iff isspace_def)

lemma lower_words_tokens: "list_all is_lower_word ws \<Longrightarrow> list_all is_token ws"
  by (auto simp: list_all_iff lower_word_token)

lemma lower_word_fixed:
  assumes "is_lower_word w"
  shows "str_lower w = w" and "translate_table w = w" and "re_pat_sub w = w" and "str_isalpha w"
proof -
  from assms have r: "\<And>c. c \<in> set w \<Longrightarrow> 97 \<le> c \<and> c \<le> 122" and ne: "w \<noteq> []"
    by (simp_all add: is_lower_word_def list_all_iff)
  show "str_lower w = w"
    unfolding str_lower_def by (rule map_idI) (use r in force)
  show "translate_table w = w"
    unfolding translate_table_def by (rule filter_True) (use r in \<open>force simp: in_punctuation\<close>)
  have "c \<in> set printable" if "c \<in> set w" for c
    using r [OF that] by (simp add: in_printable)
  then show "re_pat_sub w = w"
    unfolding re_pat_sub_def by (intro filter_True) blast
  show "str_isalpha w"
    using r ne by (auto simp: str_isalpha_def is_ascii_letter_def list_all_iff)
qed

lemma join_lower_ascii:
  "list_all is_lower_word ws \<Longrightarrow> list_all (\<lambda>c. c < 128) (str_join [32] ws)"
  by (induction "[32::nat]" ws rule: str_join.induct)
     (auto simp: is_lower_word_def list_all_iff)

text \<open>A line of lowercase words joined by single spaces cleans to the same words.\<close>

lemma clean_words_join:
  assumes nfd: "\<And>s. list_all (\<lambda>c. c < 128) s \<Longrightarrow> normalize_NFD s = s"
    and ws: "list_all is_lower_word ws"
  shows "clean_words normalize_NFD (str_join (str '' '') ws) = ws"
proof -
  have a: "list_all (\<lambda>c. c < 128) (str_join [32] ws)" using ws by (rule join_lower_ascii)
  then have "ascii_ignore (normalize_NFD (str_join [32] ws)) = str_join [32] ws"
    by (simp add: nfd ascii_ignore_def list_all_iff)
  moreover have "str_split (str_join [32] ws) = ws"
    using str_split_join [OF lower_words_tokens [OF ws]] by (simp add: str_space)
  moreover have "map str_lower ws = ws" "map translate_table ws = ws" "map re_pat_sub ws = ws"
    "filter str_isalpha ws = ws"
    using ws by (auto simp: list_all_iff lower_word_fixed intro: map_idI filter_True)
  ultimately show ?thesis by (simp add: clean_words_def str_space)
qed

lemma nfd_sample_ascii: "list_all (\<lambda>c. c < 128) s \<Longrightarrow> nfd_sample s = s"
  by (induction s) (simp_all add: nfd_sample_def)

text \<open>Scenario 1 of the specification, on the model.\<close>

lemma clean_example:
  "clean_sentences nfd_sample [str ''Caf'' @ [233] @ str '' costs 5 dollars!''] =
     [str ''cafe costs dollars'']"
  by (simp add: clean_sentences_def clean_line_def nfd_sample_def ascii_ignore_def str_split_def
      str_def isspace_def str_lower_def translate_table_def re_pat_sub_def in_punctuation
      in_printable str_isalpha_def is_ascii_letter_def)

text \<open>
  Claim C5. Every whitespace-delimited token of every line that \<open>clean_sentences\<close>
  returns is a non-empty word of lowercase ASCII letters (code points 97..122): no digit,
  punctuation, control, non-ASCII or uppercase character is left. It holds whatever the
  normalisation table does.
\<close>

theorem cleaned_tokens_lowercase_ascii:
  "\<forall>line \<in> set (clean_sentences normalize_NFD raw). \<forall>t \<in> set (str_split line). is_lower_word t"
proof -
  have "str_split (clean_line normalize_NFD l) = clean_words normalize_NFD l" for l
    unfolding clean_line_words
    by (rule str_split_join) (rule lower_words_tokens [OF clean_words_lower])
  then show ?thesis
    using clean_words_lower by (auto simp: clean_sentences_def list_all_iff)
qed

theorem cleaned_tokens_lowercase_ascii_witness:
  "str ''cafe costs dollars''
     \<in> set (clean_sentences nfd_sample [str ''Caf'' @ [233] @ str '' costs 5 dollars!''])
   \<and> str ''costs'' \<in> set (str_split (str ''cafe costs dollars''))
   \<and> is_lower_word (str ''costs'')"
proof -
  have 1: "str ''cafe costs dollars''
      \<in> set (clean_sentences nfd_sample [str ''Caf'' @ [233] @ str '' costs 5 dollars!''])"
    by (simp only: clean_example) simp
  have 2: "str ''costs'' \<in> set (str_split (str ''cafe costs dollars''))"
    by (simp add: str_split_def str_def isspace_def)
  from cleaned_tokens_lowercase_ascii 1 2 have "is_lower_word (str ''costs'')" by blast
  with 1 2 show ?thesis by blast
qed

text \<open>
  Claim C6. Cleaning is idempotent: cleaning a cleaned corpus changes nothing. The one
  fact used about \<open>unicodedata.normalize("NFD", _)\<close> is that it leaves a string of
  ASCII code points as it is.
\<close>

theorem clean_sentences_idempotent:
  assumes "\<And>s. list_all (\<lambda>c. c < 128) s \<Longrightarrow> normalize_NFD s = s"
  shows "clean_sentences normalize_NFD (clean_sentences normalize_NFD X) = clean_sentences normalize_NFD X"
  using assms
  by (simp add: clean_sentences_def clean_line_words clean_words_join clean_words_lower)

theorem clean_sentences_idempotent_witness:
  "clean_sentences nfd_sample
     (clean_sentences nfd_sample [str ''Caf'' @ [233] @ str '' costs 5 dollars!'']) =
   [str ''cafe costs dollars'']"
  using clean_sentences_idempotent
    [of nfd_sample "[str ''Caf'' @ [233] @ str '' costs 5 dollars!'']", OF nfd_sample_ascii]
  by (simp only: clean_example)

section \<open>Line counts\<close>

text \<open>
  Claim C1. \<open>clean_sentences\<close> returns as many lines as it is given, and so does
  \<open>update_dataset\<close> on the cleaned lines, for every vocabulary; an empty line stays in
  place as the empty string in both (NFD maps the empty string to itself).
\<close>

theorem line_count_preserved:
  "length (clean_sentences normalize_NFD raw) = length raw
    \<and> length (update_dataset (clean_sentences normalize_NFD raw) vocab) = length raw
    \<and> (normalize_NFD [] = [] \<longrightarrow>
         (\<forall>i < length raw. raw ! i = [] \<longrightarrow>
            clean_sentences normalize_NFD raw ! i = [] \<and>
            update_dataset (clean_sentences normalize_NFD raw) vocab ! i = []))"
proof -
  have c: "clean_line normalize_NFD [] = []" if "normalize_NFD [] = []"
    using that by (simp add: clean_line_def ascii_ignore_def str_split_def)
  have u: "update_line vocab [] = []"
    by (simp add: update_line_def str_split_def)
  show ?thesis
    by (simp add: clean_sentences_def update_dataset_def c u)
qed

theorem line_count_preserved_witness:
  "length (clean_sentences nfd_sample [str ''A 1'', [], str ''b'']) = 3
   \<and> length (update_dataset (clean_sentences nfd_sample [str ''A 1'', [], str ''b'']) {str ''b''}) = 3
   \<and> clean_sentences nfd_sample [str ''A 1'', [], str ''b''] ! 1 = []
   \<and> update_dataset (clean_sentences nfd_sample [str ''A 1'', [], str ''b'']) {str ''b''} ! 1 = []"
proof -
  have h: "nfd_sample [] = []" by (simp add: nfd_sample_def)
  have i: "(1::nat) < length [str ''A 1'', [], str ''b'']" "[str ''A 1'', [], str ''b''] ! 1 = []"
    by simp_all
  have l: "length [str ''A 1'', [], str ''b''] = 3" by simp
  from line_count_preserved [of nfd_sample "[str ''A 1'', [], str ''b'']" "{str ''b''}"] h i
  show ?thesis
    unfolding l by blast
qed

section \<open>Rewriting with the reduced vocabulary\<close>

lemma update_line_words: "update_line vocab line = str_join (str '' '') (new_words vocab line)"
  by (simp only: update_line_def new_words_def Let_def)

lemma uup_token: "is_token (str ''uup'')"
  by (simp add: is_token_def no_space_def str_def isspace_def)

lemma uup_not_s: "str ''uup'' \<noteq> str ''s''"
  by (simp add: str_def)

lemma new_words_tokens: "list_all is_token (new_words vocab line)"
  using str_split_tokens [of line] by (auto simp: new_words_def list_all_iff uup_token)

text \<open>The tokens of a rewritten line are the words that were joined.\<close>

lemma split_update_line: "str_split (update_line vocab line) = new_words vocab line"
  unfolding update_line_words by (rule str_split_join) (rule new_words_tokens)

lemma filter_subst_rewrite:
  "filter (\<lambda>word. word \<noteq> str ''s'') (map (\<lambda>t. if t \<in> vocab then t else str ''uup'') ts) =
     concat (map (rewrite_token vocab) ts)"
  by (induction ts) (simp_all add: rewrite_token_def uup_not_s)

lemma new_words_rewrite:
  "new_words vocab line = concat (map (rewrite_token vocab) (str_split line))"
  unfolding new_words_def by (rule filter_subst_rewrite)

text \<open>Scenario 3 of the specification with the line \<open>"the s nice"\<close>, on the model.\<close>

lemma update_example_uup:
  "update_dataset [str ''the s nice''] {str ''the'', str ''is'', str ''nice''} =
     [str ''the uup nice'']"
  by (simp add: update_dataset_def update_line_def str_split_def str_def isspace_def)

text \<open>
  Claim C2, as stated: the line \<open>"the s nice"\<close> with the vocabulary
  \<open>{"the", "is", "nice"}\<close> is rewritten to \<open>"the nice"\<close>. It is not: \<open>"s"\<close> is outside
  the vocabulary, so it is replaced by the placeholder before the deletion pass looks at it.
\<close>

theorem update_dataset_s_not_dropped:
  "update_dataset [str ''the s nice''] {str ''the'', str ''is'', str ''nice''} \<noteq>
     [str ''the nice'']"
  by (simp add: update_dataset_def update_line_def str_split_def str_def isspace_def)

text \<open>
  Claim C2, amended. With a vocabulary that holds \<open>"the"\<close> and \<open>"nice"\<close>, the line
  \<open>"the s nice"\<close> is rewritten to \<open>"the nice"\<close> when \<open>"s"\<close> is in the vocabulary and
  to \<open>"the uup nice"\<close> when it is not: the deletion of \<open>"s"\<close> depends on its membership.
\<close>

theorem update_dataset_s_example:
  assumes "str ''the'' \<in> vocab" and "str ''nice'' \<in> vocab"
  shows "update_dataset [str ''the s nice''] vocab =
           [if str ''s'' \<in> vocab then str ''the nice'' else str ''the uup nice'']"
proof -
  have sp: "str_split (str ''the s nice'') = [str ''the'', str ''s'', str ''nice'']"
    by (simp add: str_split_def str_def isspace_def)
  have ne: "str ''the'' \<noteq> str ''s''" "str ''nice'' \<noteq> str ''s''" "str ''uup'' \<noteq> str ''s''"
    by (simp_all add: str_def)
  have j1: "str ''the'' @ str '' '' @ str ''nice'' = str ''the nice''"
    and j2: "str ''the'' @ str '' '' @ str ''uup'' @ str '' '' @ str ''nice'' = str ''the uup nice''"
    by (simp_all add: str_def)
  show ?thesis
    using assms by (simp add: update_dataset_def update_line_def sp ne j1 j2)
qed

theorem update_dataset_s_example_witness:
  "update_dataset [str ''the s nice''] {str ''the'', str ''is'', str ''nice''} = [str ''the uup nice'']
   \<and> update_dataset [str ''the s nice''] {str ''the'', str ''s'', str ''nice''} = [str ''the nice'']"
proof -
  have m: "str ''s'' \<notin> {str ''the'', str ''is'', str ''nice''}" by (simp add: str_def)
  from update_dataset_s_example [of "{str ''the'', str ''is'', str ''nice''}"] m
  have a: "update_dataset [str ''the s nice''] {str ''the'', str ''is'', str ''nice''} =
      [str ''the uup nice'']"
    by simp
  from update_dataset_s_example [of "{str ''the'', str ''s'', str ''nice''}"]
  have b: "update_dataset [str ''the s nice''] {str ''the'', str ''s'', str ''nice''} =
      [str ''the nice'']"
    by simp
  from a b show ?thesis ..
qed

text \<open>
  Claim C3. For every list of lines and every vocabulary, each whitespace-delimited token of
  each line that \<open>update_dataset\<close> returns is a member of the vocabulary or the
  placeholder \<open>"uup"\<close>, and none is \<open>"s"\<close>.
\<close>

theorem reduced_tokens_in_vocab_or_uup:
  "\<forall>line \<in> set (update_dataset sentences vocab). \<forall>t \<in> set (str_split line).
     (t \<in> vocab \<or> t = str ''uup'') \<and> t \<noteq> str ''s''"
  by (auto simp: update_dataset_def split_update_line new_words_def)

theorem reduced_tokens_in_vocab_or_uup_witness:
  "str ''the uup nice''
     \<in> set (update_dataset [str ''the s nice''] {str ''the'', str ''is'', str ''nice''})
   \<and> str ''nice'' \<in> set (str_split (str ''the uup nice''))
   \<and> (str ''nice'' \<in> {str ''the'', str ''is'', str ''nice''} \<or> str ''nice'' = str ''uup'')
   \<and> str ''nice'' \<noteq> str ''s''"
proof -
  have 1: "str ''the uup nice''
      \<in> set (update_dataset [str ''the s nice''] {str ''the'', str ''is'', str ''nice''})"
    by (simp only: update_example_uup) simp
  have 2: "str ''nice'' \<in> set (str_split (str ''the uup nice''))"
    by (simp add: str_split_def str_def isspace_def)
  from reduced_tokens_in_vocab_or_uup 1 2
  have "(str ''nice'' \<in> {str ''the'', str ''is'', str ''nice''} \<or> str ''nice'' = str ''uup'')
      \<and> str ''nice'' \<noteq> str ''s''"
    by blast
  with 1 2 show ?thesis by blast
qed

text \<open>
  Claim C8. \<open>update_dataset\<close> rewrites each line token by token as \<open>rewrite_token\<close>
  says: a token outside the vocabulary (\<open>"s"\<close> too) becomes \<open>"uup"\<close> and is kept, and
  the deletion pass removes exactly the \<open>"s"\<close> tokens that are vocabulary members. The
  second equation reads the same off the tokens of the output lines.
\<close>

theorem update_dataset_rewrite_token:
  "update_dataset sentences vocab =
     map (\<lambda>line. str_join (str '' '') (concat (map (rewrite_token vocab) (str_split line)))) sentences
   \<and> map str_split (update_dataset sentences vocab) =
     map (\<lambda>line. concat (map (rewrite_token vocab) (str_split line))) sentences"
proof
  show "update_dataset sentences vocab =
     map (\<lambda>line. str_join (str '' '') (concat (map (rewrite_token vocab) (str_split line)))) sentences"
    by (simp add: update_dataset_def update_line_words new_words_rewrite)
  show "map str_split (update_dataset sentences vocab) =
     map (\<lambda>line. concat (map (rewrite_token vocab) (str_split line))) sentences"
    by (simp add: update_dataset_def split_update_line new_words_rewrite)
qed

theorem update_dataset_rewrite_token_witness:
  "update_dataset [str ''s the s cafe''] {str ''the'', str ''s''} = [str ''the uup'']
   \<and> map str_split (update_dataset [str ''s the s cafe''] {str ''the'', str ''s''}) =
       [[str ''the'', str ''uup'']]"
proof -
  have sp: "str_split (str ''s the s cafe'') = [str ''s'', str ''the'', str ''s'', str ''cafe'']"
    by (simp add: str_split_def str_def isspace_def)
  have r: "rewrite_token {str ''the'', str ''s''} (str ''s'') = []"
    "rewrite_token {str ''the'', str ''s''} (str ''the'') = [str ''the'']"
    "rewrite_token {str ''the'', str ''s''} (str ''cafe'') = [str ''uup'']"
    by (simp_all add: rewrite_token_def str_def)
  have j: "str ''the'' @ str '' '' @ str ''uup'' = str ''the uup''"
    by (simp add: str_def)
  note c8 = update_dataset_rewrite_token [of "[str ''s the s cafe'']" "{str ''the'', str ''s''}"]
  from c8 [THEN conjunct1]
  have a: "update_dataset [str ''s the s cafe''] {str ''the'', str ''s''} = [str ''the uup'']"
    by (simp add: sp r j)
  from c8 [THEN conjunct2]
  have b: "map str_split (update_dataset [str ''s the s cafe''] {str ''the'', str ''s''}) =
      [[str ''the'', str ''uup'']]"
    by (simp add: sp r)
  from a b show ?thesis ..
qed

section \<open>Vocabulary\<close>

lemma counter_add_keys: "fst ` set (counter_add word voc) = insert word (fst ` set voc)"
  by (induction word voc rule: counter_add.induct) auto

lemma counter_add_distinct:
  "distinct (map fst voc) \<Longrightarrow> distinct (map fst (counter_add word voc))"
  by (induction word voc rule: counter_add.induct) (auto simp: counter_add_keys)

lemma counter_add_positive:
  "list_all (\<lambda>(k, cnt). 1 \<le> cnt) voc \<Longrightarrow> list_all (\<lambda>(k, cnt). 1 \<le> cnt) (counter_add word voc)"
  by (induction word voc rule: counter_add.induct) auto

lemma counter_update_keys: "fst ` set (counter_update voc words) = fst ` set voc \<union> set words"
  unfolding counter_update_def by (induction words arbitrary: voc) (auto simp: counter_add_keys)

lemma counter_update_distinct:
  "distinct (map fst voc) \<Longrightarrow> distinct (map fst (counter_update voc words))"
  unfolding counter_update_def
  by (induction words arbitrary: voc) (simp_all add: counter_add_distinct)

lemma counter_update_positive:
  "list_all (\<lambda>(k, cnt). 1 \<le> cnt) voc \<Longrightarrow>
   list_all (\<lambda>(k, cnt). 1 \<le> cnt) (counter_update voc words)"
  unfolding counter_update_def
  by (induction words arbitrary: voc) (simp_all add: counter_add_positive)

lemma count_sentences_keys:
  "fst ` set (count_sentences voc sentences) =
     fst ` set voc \<union> (\<Union>s \<in> set sentences. set (str_split s))"
  unfolding count_sentences_def
  by (induction sentences arbitrary: voc) (auto simp: counter_update_keys)

lemma count_sentences_distinct:
  "distinct (map fst voc) \<Longrightarrow> distinct (map fst (count_sentences voc sentences))"
  unfolding count_sentences_def
  by (induction sentences arbitrary: voc) (simp_all add: counter_update_distinct)

lemma count_sentences_positive:
  "list_all (\<lambda>(k, cnt). 1 \<le> cnt) voc \<Longrightarrow>
   list_all (\<lambda>(k, cnt). 1 \<le> cnt) (count_sentences voc sentences)"
  unfolding count_sentences_def
  by (induction sentences arbitrary: voc) (simp_all add: counter_update_positive)

lemma get_vocabulary_count_alt: "get_vocabulary_count sentences = count_sentences [] sentences"
  by (simp add: get_vocabulary_count_def count_sentences_def)

text \<open>
  Claim C9. The keys of the counter that \<open>get_vocabulary_count\<close> returns are exactly the
  tokens that occur in some input line, every count is at least 1, and no key occurs
  twice.
\<close>

theorem get_vocabulary_count_keys_positive:
  "fst ` set (get_vocabulary_count sentences) = (\<Union>s \<in> set sentences. set (str_split s))
   \<and> (\<forall>(word, cnt) \<in> set (get_vocabulary_count sentences). 1 \<le> cnt)
   \<and> distinct (map fst (get_vocabulary_count sentences))"
  using count_sentences_keys [of "[]" sentences] count_sentences_distinct [of "[]" sentences]
    count_sentences_positive [of "[]" sentences]
  by (simp add: get_vocabulary_count_alt list_all_iff)

theorem get_vocabulary_count_keys_positive_witness:
  "str ''c'' \<in> set (str_split (str ''b c a''))
   \<and> str ''c'' \<in> fst ` set (get_vocabulary_count [str ''a b a'', [], str ''b c a''])
   \<and> distinct (map fst (get_vocabulary_count [str ''a b a'', [], str ''b c a'']))"
proof -
  have 1: "str ''c'' \<in> set (str_split (str ''b c a''))"
    by (simp add: str_split_def str_def isspace_def)
  from get_vocabulary_count_keys_positive [of "[str ''a b a'', [], str ''b c a'']"]
  have k: "fst ` set (get_vocabulary_count [str ''a b a'', [], str ''b c a'']) =
      (\<Union>s \<in> set [str ''a b a'', [], str ''b c a'']. set (str_split s))"
    and d: "distinct (map fst (get_vocabulary_count [str ''a b a'', [], str ''b c a'']))"
    by blast+
  from 1 have "str ''c'' \<in> (\<Union>s \<in> set [str ''a b a'', [], str ''b c a'']. set (str_split s))"
    by simp
  with k have "str ''c'' \<in> fst ` set (get_vocabulary_count [str ''a b a'', [], str ''b c a''])"
    by simp
  with 1 d show ?thesis by blast
qed

lemma vocab_items_ge_int:
  "vocab_items_ge vocab (PyInt t) = Inr (map fst (filter (\<lambda>(word, cnt). t \<le> cnt) vocab))"
  by (induction vocab) auto

lemma reduce_vocab_int:
  "reduce_vocab vocab (PyInt t) = Inr {word. \<exists>cnt. (word, cnt) \<in> set vocab \<and> t \<le> cnt}"
  by (force simp: reduce_vocab_def vocab_items_ge_int)

text \<open>A threshold that is a string raises as soon as there is a count to compare it with.\<close>

lemma vocab_items_ge_str: "vocab \<noteq> [] \<Longrightarrow> vocab_items_ge vocab (PyStr s) = Inl TypeError"
  by (cases vocab) auto

lemma reduce_vocab_str:
  "reduce_vocab vocab (PyStr s) = (if vocab = [] then Inr {} else Inl TypeError)"
  by (simp add: reduce_vocab_def vocab_items_ge_str)

text \<open>
  Claim C7. For integer thresholds \<open>t1 \<le> t2\<close>, \<open>reduce_vocab\<close> returns a set for each,
  the set for \<open>t2\<close> is contained in the set for \<open>t1\<close>, and that one in the keys of the
  counter.
\<close>

theorem reduce_vocab_antitone:
  assumes "t1 \<le> t2"
  shows "\<exists>S1 S2. reduce_vocab vocab (PyInt t1) = Inr S1 \<and> reduce_vocab vocab (PyInt t2) = Inr S2
           \<and> S2 \<subseteq> S1 \<and> S1 \<subseteq> fst ` set vocab"
  using assms by (force simp: reduce_vocab_int)

theorem reduce_vocab_antitone_witness:
  "\<exists>S1 S2. reduce_vocab [(str ''the'', 10), (str ''cafe'', 2)] (PyInt 2) = Inr S1
      \<and> reduce_vocab [(str ''the'', 10), (str ''cafe'', 2)] (PyInt 4) = Inr S2
      \<and> S2 \<subseteq> S1 \<and> S1 \<subseteq> fst ` set [(str ''the'', 10::int), (str ''cafe'', 2)]"
proof -
  have "(2::int) \<le> 4" by simp
  then show ?thesis
    by (rule reduce_vocab_antitone [of 2 4 "[(str ''the'', 10), (str ''cafe'', 2)]"])
qed

section \<open>Loading\<close>

lemma split_sep_acc_nonempty: "split_sep_acc sep cur s \<noteq> []"
  by (induction sep cur s rule: split_sep_acc.induct) simp_all

lemma dropWhile_all: "list_all P s \<Longrightarrow> dropWhile P s = []"
  by (induction s) simp_all

lemma strip_all_space: "list_all isspace s \<Longrightarrow> str_strip s = []"
  by (simp add: str_strip_def dropWhile_all)

text \<open>
  Claim C10. For a file that can be read, \<open>get_sentences_from_document\<close> returns a
  non-empty list; when the text is empty or all whitespace the list is the one empty
  string.
\<close>

theorem get_sentences_from_document_nonempty:
  assumes "files w filename = Some raw_text"
  shows "\<exists>sentences. get_sentences_from_document w filename = Inr sentences \<and> sentences \<noteq> []
           \<and> (list_all isspace raw_text \<longrightarrow> sentences = [[]])"
  using assms
  by (simp add: get_sentences_from_document_def str_split_sep_def split_sep_acc_nonempty
      strip_all_space)

theorem get_sentences_from_document_nonempty_witness:
  "files \<lparr>files = [str ''Input.txt'' \<mapsto> [32, 10, 9]], pickles = Map.empty\<rparr> (str ''Input.txt'')
     = Some [32, 10, 9]
   \<and> get_sentences_from_document \<lparr>files = [str ''Input.txt'' \<mapsto> [32, 10, 9]], pickles = Map.empty\<rparr>
        (str ''Input.txt'') = Inr [[]]"
proof -
  have f: "files \<lparr>files = [str ''Input.txt'' \<mapsto> [32, 10, 9]], pickles = Map.empty\<rparr> (str ''Input.txt'')
      = Some [32, 10, 9]"
    by simp
  have s: "list_all isspace [32, 10, 9]" by (simp add: isspace_def)
  from get_sentences_from_document_nonempty [OF f] s show ?thesis using f by auto
qed

section \<open>The command line\<close>

lemma hello_loaded:
  "get_sentences_from_document
      \<lparr>files = [str ''Input.txt'' \<mapsto> str ''hello''], pickles = Map.empty\<rparr> (str ''Input.txt'') =
      Inr [str ''hello'']"
  by (simp add: get_sentences_from_document_def str_strip_def str_split_sep_def str_def isspace_def)

lemma hello_cleaned: "clean_sentences nfd_sample [str ''hello''] = [str ''hello'']"
  by (simp add: clean_sentences_def clean_line_def nfd_sample_def ascii_ignore_def str_split_def
      str_def isspace_def str_lower_def translate_table_def re_pat_sub_def in_punctuation
      in_printable str_isalpha_def is_ascii_letter_def)

lemma hello_counted: "get_vocabulary_count [str ''hello''] = [(str ''hello'', 1)]"
  by (simp add: get_vocabulary_count_def counter_update_def str_split_def str_def isspace_def)

lemma output_names:
  "str ''Output.txt'' @ str ''.pkl'' = str ''Output.txt.pkl''"
  "str ''Output.txt'' @ str ''.reduced.pkl'' = str ''Output.txt.reduced.pkl''"
  by (simp_all add: str_def)

text \<open>
  Without the option the threshold is the integer 4 and the run completes: both lists are
  pickled.
\<close>

lemma main_default_threshold:
  "main nfd_sample
     \<lparr>files = [str ''Input.txt'' \<mapsto> str ''hello''], pickles = Map.empty\<rparr>
     \<lparr>arg_input = None, arg_output = None, arg_vocab_reduction_threshold = None\<rparr>
   = (\<lparr>files = [str ''Input.txt'' \<mapsto> str ''hello''],
        pickles = [str ''Output.txt.pkl'' \<mapsto> [str ''hello''],
                   str ''Output.txt.reduced.pkl'' \<mapsto> [str ''uup'']]\<rparr>, None)"
proof -
  have r: "reduce_vocab [(str ''hello'', 1)] (PyInt 4) = Inr {}"
    by (simp add: reduce_vocab_def)
  have u: "update_dataset [str ''hello''] {} = [str ''uup'']"
    by (simp add: update_dataset_def update_line_def str_split_def str_def isspace_def)
  show ?thesis
    by (simp add: main_def preprocess_file_def hello_loaded hello_cleaned hello_counted r u
        output_names)
qed

text \<open>A threshold typed as a number fares no better than one that is not a number.\<close>

lemma main_numeric_string_threshold:
  "main nfd_sample
     \<lparr>files = [str ''Input.txt'' \<mapsto> str ''hello''], pickles = Map.empty\<rparr>
     \<lparr>arg_input = None, arg_output = None, arg_vocab_reduction_threshold = Some (str ''5'')\<rparr>
   = (\<lparr>files = [str ''Input.txt'' \<mapsto> str ''hello''],
        pickles = [str ''Output.txt.pkl'' \<mapsto> [str ''hello'']]\<rparr>, Some TypeError)"
  by (simp add: main_def preprocess_file_def hello_loaded hello_cleaned hello_counted
      reduce_vocab_str output_names)

text \<open>
  Claim C4 says that a threshold argument which is not a number aborts the program before
  any processing, with nothing written. On the code, the argument \<open>abc\<close> is accepted as
  a string; the file is loaded and cleaned, the cleaned corpus is pickled, and only then
  does the comparison in \<open>reduce_vocab\<close> raise \<open>TypeError\<close>.
\<close>

theorem main_string_threshold_writes_then_raises:
  "main nfd_sample
     \<lparr>files = [str ''Input.txt'' \<mapsto> str ''hello''], pickles = Map.empty\<rparr>
     \<lparr>arg_input = None, arg_output = None, arg_vocab_reduction_threshold = Some (str ''abc'')\<rparr>
   = (\<lparr>files = [str ''Input.txt'' \<mapsto> str ''hello''],
        pickles = [str ''Output.txt.pkl'' \<mapsto> [str ''hello'']]\<rparr>, Some TypeError)"
  by (simp add: main_def preprocess_file_def hello_loaded hello_cleaned hello_counted
      reduce_vocab_str output_names)

end
